theory Spec2Isabelle
  imports Main
begin

section \<open>Python string operations used by devflow/versioning.py\<close>

text \<open>
  Python strings are modelled as \<open>string\<close> (lists of characters). Only the operations
  that \<^verbatim>\<open>versioning.py\<close> calls are modelled: \<^verbatim>\<open>startswith\<close>, \<^verbatim>\<open>split\<close> on the one-character
  separator \<^verbatim>\<open>"-"\<close>, \<^verbatim>\<open>replace\<close> (all occurrences, and with \<^verbatim>\<open>count = 1\<close>), list
  indexing that raises \<^verbatim>\<open>IndexError\<close>, and the \<^verbatim>\<open>%d\<close> conversion of an integer.
\<close>

definition startswith :: "string \<Rightarrow> string \<Rightarrow> bool" where
  \<comment> \<open>\<^verbatim>\<open>s.startswith(p)\<close>\<close>
  "startswith s p = (take (length p) s = p)"

fun split_from :: "char \<Rightarrow> string \<Rightarrow> string \<Rightarrow> string list" where
  \<comment> \<open>the scan of \<^verbatim>\<open>s.split(sep)\<close>: \<open>acc\<close> holds the current field, reversed\<close>
  "split_from sep acc [] = [rev acc]"
| "split_from sep acc (c # cs) =
     (if c = sep then rev acc # split_from sep [] cs else split_from sep (c # acc) cs)"

definition split_chr :: "char \<Rightarrow> string \<Rightarrow> string list" where
  \<comment> \<open>\<^verbatim>\<open>s.split(sep)\<close> for a one-character separator: every occurrence splits, empty
      fields are kept, and the result always has at least one field.\<close>
  "split_chr sep s = split_from sep [] s"

definition index_opt :: "'a list \<Rightarrow> nat \<Rightarrow> 'a option" where
  \<comment> \<open>\<^verbatim>\<open>xs[i]\<close> for a non-negative literal index; \<open>None\<close> stands for \<^verbatim>\<open>IndexError\<close>.\<close>
  "index_opt xs i = (if i < length xs then Some (xs ! i) else None)"

function replace_all :: "string \<Rightarrow> string \<Rightarrow> string \<Rightarrow> string" where
  \<comment> \<open>\<^verbatim>\<open>s.replace(old, new)\<close> for a non-empty \<open>old\<close>: left to right, non-overlapping.\<close>
  "replace_all old new [] = []"
| "replace_all old new (c # cs) =
     (if old \<noteq> [] \<and> startswith (c # cs) old
      then new @ replace_all old new (drop (length old) (c # cs))
      else c # replace_all old new cs)"
  by pat_completeness auto
termination
  by (relation "measure (\<lambda>(old, new, s). length s)") auto

fun replace_first :: "string \<Rightarrow> string \<Rightarrow> string \<Rightarrow> string" where
  \<comment> \<open>\<^verbatim>\<open>s.replace(old, new, 1)\<close> for a non-empty \<open>old\<close>: only the leftmost occurrence.\<close>
  "replace_first old new [] = []"
| "replace_first old new (c # cs) =
     (if old \<noteq> [] \<and> startswith (c # cs) old
      then new @ drop (length old) (c # cs)
      else c # replace_first old new cs)"

definition digit_chr :: "nat \<Rightarrow> char" where
  "digit_chr d = char_of (48 + d)"

function str_nat :: "nat \<Rightarrow> string" where
  "str_nat n = (if n < 10 then [digit_chr n] else str_nat (n div 10) @ [digit_chr (n mod 10)])"
  by pat_completeness auto
termination
  by (relation "measure (\<lambda>n. n)") auto

definition str_int :: "int \<Rightarrow> string" where
  \<comment> \<open>\<^verbatim>\<open>"%d" % i\<close>: decimal digits, with a leading minus sign for a negative number.\<close>
  "str_int i = (if i < 0 then CHR ''-'' # str_nat (nat (- i)) else str_nat (nat i))"

section \<open>The fragment of Python's \<^verbatim>\<open>re\<close> module that the registry needs\<close>

text \<open>
  The patterns of \<^verbatim>\<open>BRANCH_TYPES\<close> use character ranges, literal characters,
  concatenation, the greedy repetitions \<^verbatim>\<open>*\<close> and \<^verbatim>\<open>+\<close>, groups (one of them named) and
  the anchors \<^verbatim>\<open>^\<close> and \<^verbatim>\<open>$\<close>. \<open>rmatch\<close> is a backtracking matcher: it returns every way
  the pattern can match at the current position, in the order in which Python's engine
  tries them (greedy: the longest repetition first). A matcher state is the number of
  characters consumed so far, the rest of the subject, and the named groups captured so
  far (the latest capture first). The test on the length in the equation for \<open>Star\<close> stops
  a repetition whose body matched the empty string, as Python's engine does; no body of a
  repetition in the registry matches the empty string.
\<close>

datatype regex =
    Lit char
  | Range char char
  | Seq regex regex
  | Star regex
  | Group string regex
  | Bol
  | Eol

definition Plus_rx :: "regex \<Rightarrow> regex" where
  \<comment> \<open>\<^verbatim>\<open>r+\<close> is one \<open>r\<close> followed by \<^verbatim>\<open>r*\<close>.\<close>
  "Plus_rx r = Seq r (Star r)"

type_synonym mstate = "nat \<times> string \<times> (string \<times> string) list"

definition in_range :: "char \<Rightarrow> char \<Rightarrow> char \<Rightarrow> bool" where
  "in_range a b x = ((of_char a :: nat) \<le> of_char x \<and> (of_char x :: nat) \<le> of_char b)"

function rmatch :: "regex \<Rightarrow> mstate \<Rightarrow> mstate list" where
  "rmatch (Lit c) (i, s, g) =
     (case s of [] \<Rightarrow> [] | x # xs \<Rightarrow> if x = c then [(Suc i, xs, g)] else [])"
| "rmatch (Range a b) (i, s, g) =
     (case s of [] \<Rightarrow> [] | x # xs \<Rightarrow> if in_range a b x then [(Suc i, xs, g)] else [])"
| "rmatch (Seq r1 r2) (i, s, g) = concat (map (rmatch r2) (rmatch r1 (i, s, g)))"
| "rmatch (Star r) (i, s, g) =
     concat (map (\<lambda>st. if length (fst (snd st)) < length s then rmatch (Star r) st else [])
                 (rmatch r (i, s, g)))
     @ [(i, s, g)]"
| "rmatch (Group n r) (i, s, g) =
     map (\<lambda>(j, s', g'). (j, s', (n, take (j - i) s) # g')) (rmatch r (i, s, g))"
| "rmatch Bol (i, s, g) = (if i = 0 then [(i, s, g)] else [])"
| "rmatch Eol (i, s, g) = (if s = [] \<or> s = [CHR 0x0A] then [(i, s, g)] else [])"
  by pat_completeness auto
termination
  by (relation "inv_image (less_than <*lex*> less_than)
                  (\<lambda>(r, st). (size r, length (fst (snd st))))") auto

definition re_match :: "regex \<Rightarrow> string \<Rightarrow> (string \<times> string) list option" where
  \<comment> \<open>\<^verbatim>\<open>re.match(pattern, s)\<close>: the first match starting at position 0, as its
      \<^verbatim>\<open>groupdict()\<close>; \<open>None\<close> when there is none.\<close>
  "re_match r s = (case rmatch r (0, s, []) of [] \<Rightarrow> None | (j, rest, g) # _ \<Rightarrow> Some g)"


section \<open>The branch-type registry\<close>

record branch_type =
  builds_snapshot :: bool
  builds_release :: bool
  versioned :: bool
  allowed_version_re :: regex

definition digit :: regex where
  \<comment> \<open>\<^verbatim>\<open>[0-9]\<close>\<close>
  "digit = Range (CHR ''0'') (CHR ''9'')"

definition posint :: regex where
  \<comment> \<open>\<^verbatim>\<open>[1-9][0-9]*\<close>\<close>
  "posint = Seq (Range (CHR ''1'') (CHR ''9'')) (Star digit)"

definition VERSION_RE :: regex where
  \<comment> \<open>\<^verbatim>\<open>VERSION_RE = "[0-9]+\.[0-9]+(\.[0-9]+)*"\<close>\<close>
  "VERSION_RE =
     Seq (Plus_rx digit) (Seq (Lit (CHR ''.'')) (Seq (Plus_rx digit)
       (Star (Seq (Lit (CHR ''.'')) (Plus_rx digit)))))"

definition lits :: "string \<Rightarrow> regex \<Rightarrow> regex" where
  \<comment> \<open>a run of literal characters followed by the rest of the pattern\<close>
  "lits cs r = foldr (\<lambda>c. Seq (Lit c)) cs r"

definition next_re :: regex where
  \<comment> \<open>\<^verbatim>\<open>"^%snext$" % VERSION_RE\<close>\<close>
  "next_re = Seq Bol (Seq VERSION_RE (lits ''next'' Eol))"

definition release_re :: regex where
  \<comment> \<open>\<^verbatim>\<open>"^(?P<bverstr>%s)rc[1-9][0-9]*$" % VERSION_RE\<close>\<close>
  "release_re = Seq Bol (Seq (Group ''bverstr'' VERSION_RE) (lits ''rc'' (Seq posint Eol)))"

definition master_re :: regex where
  \<comment> \<open>\<^verbatim>\<open>"^%s$" % VERSION_RE\<close>\<close>
  "master_re = Seq Bol (Seq VERSION_RE Eol)"

definition hotfix_re :: regex where
  \<comment> \<open>\<^verbatim>\<open>"^(?P<bverstr>^%s\.[1-9][0-9]*)$" % VERSION_RE\<close>\<close>
  "hotfix_re =
     Seq Bol (Seq (Group ''bverstr'' (Seq Bol (Seq VERSION_RE (Seq (Lit (CHR ''.'')) posint)))) Eol)"

definition BRANCH_TYPES :: "string \<rightharpoonup> branch_type" where
  "BRANCH_TYPES = map_of
     [(''feature'', \<lparr>builds_snapshot = True, builds_release = False, versioned = False,
                     allowed_version_re = next_re\<rparr>),
      (''develop'', \<lparr>builds_snapshot = True, builds_release = False, versioned = False,
                     allowed_version_re = next_re\<rparr>),
      (''release'', \<lparr>builds_snapshot = True, builds_release = True, versioned = True,
                     allowed_version_re = release_re\<rparr>),
      (''master'', \<lparr>builds_snapshot = False, builds_release = True, versioned = False,
                    allowed_version_re = master_re\<rparr>),
      (''hotfix'', \<lparr>builds_snapshot = True, builds_release = True, versioned = True,
                    allowed_version_re = hotfix_re\<rparr>)]"

section \<open>Errors\<close>

text \<open>
  One constructor for each \<^verbatim>\<open>raise\<close> statement of the module, carrying the values that the
  statement formats into its message.
\<close>

datatype error =
    MalformedBranchName string
    \<comment> \<open>\<^verbatim>\<open>ValueError("Malformed branch name '%s', cannot classify as one of %s" % (btypestr, allowed_branches))\<close>;
        \<^verbatim>\<open>allowed_branches\<close> is the constant list of the registry's keys\<close>
  | MissingBranchVersion string
    \<comment> \<open>\<^verbatim>\<open>ValueError("Branch name '%s' should contain version" % branch)\<close>\<close>
  | MalformedBranchVersion string string
    \<comment> \<open>\<^verbatim>\<open>ValueError("Malformed version '%s' in branch name '%s'" % (bverstr, branch))\<close>\<close>
  | BaseVersionUnsuitable string string
    \<comment> \<open>\<^verbatim>\<open>ValueError("Base version '%s' unsuitable for branch name '%s'" % (base_version, branch))\<close>\<close>
  | InvalidMode string
    \<comment> \<open>\<^verbatim>\<open>ValueError("Specified mode '%s' should be one of 'snapshot' or 'release'" % mode)\<close>\<close>
  | ModeNotAllowedForBranchType string string
    \<comment> \<open>\<^verbatim>\<open>ValueError("Invalid mode '%s' in branch type '%s'" % (mode, btypestr))\<close>\<close>
  | MoreThanTwoParents string
    \<comment> \<open>\<^verbatim>\<open>RuntimeError("Commit %s has more than 2 parents!" % commit)\<close>; a commit prints
        as its \<^verbatim>\<open>hexsha\<close>\<close>
  | NotSingleLine
    \<comment> \<open>\<^verbatim>\<open>ValueError("File '%s' should contain a single non-comment line.")\<close>\<close>
  | BuildModeNotSet
    \<comment> \<open>\<^verbatim>\<open>ValueError("GITFLOW_BUILD_MODE environment variable is not set. Set this variable to 'release' or 'snapshot'")\<close>\<close>
  | BuildModeInvalid
    \<comment> \<open>\<^verbatim>\<open>ValueError("GITFLOW_BUILD_MODE environment variable must be 'release' or 'snapshot'")\<close>\<close>
  | KeyError string
    \<comment> \<open>raised by the interpreter: \<^verbatim>\<open>m.groupdict()["bverstr"]\<close> on a match without that group\<close>
  | AttributeError string
    \<comment> \<open>raised by the interpreter: an attribute of \<^verbatim>\<open>None\<close>, when \<^verbatim>\<open>vcs_info()\<close> returned \<^verbatim>\<open>None\<close>\<close>
  | IOError
    \<comment> \<open>raised by the interpreter: the version file cannot be opened\<close>




fun with_branch :: "string \<Rightarrow> error \<Rightarrow> error" where
  \<comment> \<open>the same error, with the raw branch name that three of the messages quote replaced\<close>
  "with_branch br (MissingBranchVersion _) = MissingBranchVersion br"
| "with_branch br (MalformedBranchVersion f _) = MalformedBranchVersion f br"
| "with_branch br (BaseVersionUnsuitable b _) = BaseVersionUnsuitable b br"
| "with_branch br e = e"

section \<open>Repository state\<close>

datatype commit = Commit (hexsha: string) (parents: "commit list")

record vcs_info =
  branch :: string
  revid :: string
  revno :: int
  toplevel :: string

definition short_id :: "commit \<Rightarrow> string" where
  \<comment> \<open>\<^verbatim>\<open>commit.hexsha[0:7]\<close>\<close>
  "short_id c = take 7 (hexsha c)"

definition get_commit_id :: "commit \<Rightarrow> string \<Rightarrow> error + string" where
  \<comment> \<open>the second argument is \<^verbatim>\<open>current_branch.name\<close>\<close>
  "get_commit_id c cur_br_name =
     (if length (parents c) = 1 then Inr (short_id c)
      else if length (parents c) = 2 then
        (if startswith cur_br_name ''debian-'' \<or> cur_br_name = ''debian''
         then Inr (short_id (parents c ! 0) @ ''-'' @ short_id (parents c ! 1))
         else Inr (short_id c))
      else Inl (MoreThanTwoParents (hexsha c)))"

section \<open>Reading the repository and the environment\<close>

record git_repo =
  head_name :: string     \<comment> \<open>\<^verbatim>\<open>repo.head.reference.name\<close>\<close>
  head_commit :: commit   \<comment> \<open>\<^verbatim>\<open>repo.head.reference.commit\<close>\<close>
  iter_commits :: "commit list"
  working_dir :: string

definition vcs_info_of :: "git_repo option \<Rightarrow> error + vcs_info option" where
  \<comment> \<open>\<^verbatim>\<open>vcs_info()\<close>; the argument is \<open>None\<close> when the current directory is not a git
      repository (\<^verbatim>\<open>InvalidGitRepositoryError\<close> is caught and \<^verbatim>\<open>None\<close> returned). An exception
      of \<^verbatim>\<open>get_commit_id\<close> is not caught.\<close>
  "vcs_info_of r =
     (case r of
        None \<Rightarrow> Inr None
      | Some repo \<Rightarrow>
          (case get_commit_id (head_commit repo) (head_name repo) of
             Inl e \<Rightarrow> Inl e
           | Inr rid \<Rightarrow>
               Inr (Some \<lparr>branch = head_name repo, revid = rid,
                          revno = int (length (iter_commits repo)),
                          toplevel = working_dir repo\<rparr>)))"

section \<open>Branch classification\<close>

definition normalize_branch_name :: "string \<Rightarrow> string" where
  "normalize_branch_name branch_name =
     (let brnorm = (if branch_name = ''debian'' then ''debian-master'' else branch_name)
      in if startswith brnorm ''debian-'' then replace_first ''debian-'' [] brnorm else brnorm)"

definition get_branch_type :: "string \<Rightarrow> string" where
  "get_branch_type branch_name =
     (if CHR ''-'' \<in> set branch_name then hd (split_chr (CHR ''-'') branch_name)
      else branch_name)"

section \<open>The version generator\<close>

definition branch_version :: "branch_type \<Rightarrow> string \<Rightarrow> string \<Rightarrow> error + string option" where
  \<comment> \<open>lines 299-310: the \<^verbatim>\<open>if btype.versioned:\<close> block; the result is \<^verbatim>\<open>bverstr\<close>, which
      is bound only for a versioned branch type\<close>
  "branch_version btype brnorm br =
     (if versioned btype then
        (case index_opt (split_chr (CHR ''-'') brnorm) 1 of
           None \<Rightarrow> Inl (MissingBranchVersion br)
         | Some bverstr \<Rightarrow>
             if re_match VERSION_RE bverstr = None
             then Inl (MalformedBranchVersion bverstr br)
             else Inr (Some bverstr))
      else Inr None)"

definition check_base_version ::
  "branch_type \<Rightarrow> string option \<Rightarrow> string \<Rightarrow> string \<Rightarrow> error + unit" where
  \<comment> \<open>lines 312-315; \<^verbatim>\<open>bverstr\<close> is bound exactly when \<^verbatim>\<open>btype.versioned\<close> holds, so the
      test of \<^verbatim>\<open>btype.versioned\<close> is the case distinction on it\<close>
  "check_base_version btype bverstr base_version br =
     (case re_match (allowed_version_re btype) base_version of
        None \<Rightarrow> Inl (BaseVersionUnsuitable base_version br)
      | Some m \<Rightarrow>
          (case bverstr of
             None \<Rightarrow> Inr ()
           | Some bv \<Rightarrow>
               (case map_of m ''bverstr'' of
                  None \<Rightarrow> Inl (KeyError ''bverstr'')
                | Some captured \<Rightarrow>
                    if captured \<noteq> bv then Inl (BaseVersionUnsuitable base_version br)
                    else Inr ())))"

definition check_mode :: "branch_type \<Rightarrow> string \<Rightarrow> string \<Rightarrow> error + bool" where
  \<comment> \<open>lines 317-325; the result is \<^verbatim>\<open>snap\<close>\<close>
  "check_mode btype btypestr mode =
     (if mode \<notin> set [''snapshot'', ''release''] then Inl (InvalidMode mode)
      else let snap = (mode = ''snapshot'') in
        if (snap \<and> \<not> builds_snapshot btype) \<or> (\<not> snap \<and> \<not> builds_release btype)
        then Inl (ModeNotAllowedForBranchType mode btypestr)
        else Inr snap)"

definition python_version :: "string \<Rightarrow> vcs_info \<Rightarrow> string \<Rightarrow> error + string" where
  "python_version base_version vcs mode =
     (let br = branch vcs;
          brnorm = normalize_branch_name br;
          btypestr = get_branch_type brnorm
      in case BRANCH_TYPES btypestr of
           None \<Rightarrow> Inl (MalformedBranchName btypestr)
         | Some btype \<Rightarrow>
             (case branch_version btype brnorm br of
                Inl e \<Rightarrow> Inl e
              | Inr bverstr \<Rightarrow>
                  (case check_base_version btype bverstr base_version br of
                     Inl e \<Rightarrow> Inl e
                   | Inr _ \<Rightarrow>
                       (case check_mode btype btypestr mode of
                          Inl e \<Rightarrow> Inl e
                        | Inr snap \<Rightarrow>
                            Inr (if snap
                                 then base_version @ ''_'' @ str_int (revno vcs) @ ''_'' @ revid vcs
                                 else base_version)))))"

definition brnorm_of :: "vcs_info \<Rightarrow> string" where
  \<comment> \<open>\<^verbatim>\<open>brnorm\<close>, line 289\<close>
  "brnorm_of vcs = normalize_branch_name (branch vcs)"

definition btypestr_of :: "vcs_info \<Rightarrow> string" where
  \<comment> \<open>\<^verbatim>\<open>btypestr\<close>, line 290\<close>
  "btypestr_of vcs = get_branch_type (normalize_branch_name (branch vcs))"

definition debian_version_from_python_version :: "string \<Rightarrow> string" where
  "debian_version_from_python_version pyver =
     replace_all ''rc'' ''~rc'' (replace_all ''_'' ''~'' pyver) @ ''-1''"

definition debian_version :: "string \<Rightarrow> vcs_info \<Rightarrow> string \<Rightarrow> error + string" where
  "debian_version base_version vcs mode =
     (case python_version base_version vcs mode of
        Inl e \<Rightarrow> Inl e
      | Inr p \<Rightarrow> Inr (debian_version_from_python_version p))"

section \<open>The entry points\<close>

text \<open>
  The entry points read the repository, the version file and the process environment.
  These are passed in: the repository as for \<open>vcs_info_of\<close>, the file system as a function
  from the repository's top-level directory to the lines of its \<^verbatim>\<open>version\<close> file (\<open>None\<close>
  when it cannot be opened), and \<^verbatim>\<open>os.environ\<close> as a partial map.
\<close>

definition is_space :: "char \<Rightarrow> bool" where
  "is_space c = (c \<in> set [CHR '' '', CHR 0x09, CHR 0x0A, CHR 0x0B, CHR 0x0C, CHR 0x0D])"

definition strip :: "string \<Rightarrow> string" where
  \<comment> \<open>\<^verbatim>\<open>l.strip()\<close>\<close>
  "strip l = rev (dropWhile is_space (rev (dropWhile is_space l)))"

definition base_version_of ::
  "(string \<Rightarrow> string list option) \<Rightarrow> vcs_info option \<Rightarrow> error + string" where
  \<comment> \<open>\<^verbatim>\<open>base_version(vcs_info)\<close>\<close>
  "base_version_of fs v =
     (case v of
        None \<Rightarrow> Inl (AttributeError ''toplevel'')
      | Some vi \<Rightarrow>
          (case fs (toplevel vi) of
             None \<Rightarrow> Inl IOError
           | Some ls \<Rightarrow>
               (let l = filter (\<lambda>l. \<not> startswith l ''#'') (map strip ls)
                in if length l \<noteq> 1 then Inl NotSingleLine else Inr (l ! 0))))"

definition build_mode :: "(string \<rightharpoonup> string) \<Rightarrow> error + string" where
  "build_mode environ =
     (case environ ''GITFLOW_BUILD_MODE'' of
        None \<Rightarrow> Inl BuildModeNotSet
      | Some mode \<Rightarrow>
          if mode = ''release'' \<or> mode = ''snapshot'' then Inr mode else Inl BuildModeInvalid)"

definition version_inputs ::
  "git_repo option \<Rightarrow> (string \<Rightarrow> string list option) \<Rightarrow> (string \<rightharpoonup> string)
     \<Rightarrow> error + (vcs_info option \<times> string \<times> string)" where
  \<comment> \<open>the three statements that open \<^verbatim>\<open>get_python_version\<close>, \<^verbatim>\<open>get_debian_version\<close> and
      \<^verbatim>\<open>main\<close>: \<^verbatim>\<open>v = vcs_info(); b = base_version(v); mode = build_mode()\<close>\<close>
  "version_inputs r fs environ =
     (case vcs_info_of r of
        Inl e \<Rightarrow> Inl e
      | Inr v \<Rightarrow>
          (case base_version_of fs v of
             Inl e \<Rightarrow> Inl e
           | Inr b \<Rightarrow>
               (case build_mode environ of
                  Inl e \<Rightarrow> Inl e
                | Inr mode \<Rightarrow> Inr (v, b, mode))))"

definition get_python_version ::
  "git_repo option \<Rightarrow> (string \<Rightarrow> string list option) \<Rightarrow> (string \<rightharpoonup> string) \<Rightarrow> error + string" where
  "get_python_version r fs environ =
     (case version_inputs r fs environ of
        Inl e \<Rightarrow> Inl e
      | Inr (v, b, mode) \<Rightarrow>
          (case v of
             None \<Rightarrow> Inl (AttributeError ''branch'')
           | Some vi \<Rightarrow> python_version b vi mode))"

definition get_debian_version ::
  "git_repo option \<Rightarrow> (string \<Rightarrow> string list option) \<Rightarrow> (string \<rightharpoonup> string) \<Rightarrow> error + string" where
  "get_debian_version r fs environ =
     (case version_inputs r fs environ of
        Inl e \<Rightarrow> Inl e
      | Inr (v, b, mode) \<Rightarrow>
          (case v of
             None \<Rightarrow> Inl (AttributeError ''branch'')
           | Some vi \<Rightarrow> debian_version b vi mode))"

fun unreplace_rc :: "string \<Rightarrow> string" where
  \<comment> \<open>removes the \<^verbatim>\<open>~\<close> in front of every \<^verbatim>\<open>rc\<close>: used to invert \<^verbatim>\<open>replace("rc", "~rc")\<close>\<close>
  "unreplace_rc (a # b # c # s) =
     (if a = CHR ''~'' \<and> b = CHR ''r'' \<and> c = CHR ''c''
      then CHR ''r'' # CHR ''c'' # unreplace_rc s
      else a # unreplace_rc (b # c # s))"
| "unreplace_rc s = s"

section \<open>Facts about the string operations\<close>

lemma split_from_nonempty: "split_from sep acc s \<noteq> []"
  by (induction s arbitrary: acc) auto

lemma split_chr_nonempty: "split_chr sep s \<noteq> []"
  by (simp add: split_chr_def split_from_nonempty)

lemma hd_split_from:
  "hd (split_from sep acc s) = rev acc @ takeWhile (\<lambda>c. c \<noteq> sep) s"
  by (induction s arbitrary: acc) auto

lemma hd_split_chr: "hd (split_chr sep s) = takeWhile (\<lambda>c. c \<noteq> sep) s"
  by (simp add: split_chr_def hd_split_from)

lemma takeWhile_no_sep: "sep \<notin> set n \<Longrightarrow> takeWhile (\<lambda>c. c \<noteq> sep) n = n"
  by (induction n) auto

lemma takeWhile_upto_sep:
  "sep \<notin> set t \<Longrightarrow> takeWhile (\<lambda>c. c \<noteq> sep) (t @ sep # rest) = t"
  by (induction t) auto

lemma get_branch_type_takeWhile:
  "get_branch_type n = takeWhile (\<lambda>c. c \<noteq> CHR ''-'') n"
  by (simp add: get_branch_type_def hd_split_chr takeWhile_no_sep)

lemma startswith_append: "startswith (p @ s) p"
  by (simp add: startswith_def)

lemma replace_first_prefix: "p \<noteq> [] \<Longrightarrow> replace_first p new (p @ s) = new @ s"
  by (cases p) (auto simp: startswith_def)

lemma normalize_debian_prefix: "normalize_branch_name (''debian-'' @ x) = x"
proof -
  have "''debian-'' @ x \<noteq> ''debian''" by simp
  moreover have "startswith (''debian-'' @ x) ''debian-''" by (rule startswith_append)
  moreover have "replace_first ''debian-'' [] (''debian-'' @ x) = [] @ x"
    by (rule replace_first_prefix) simp
  ultimately show ?thesis
    by (simp add: normalize_branch_name_def del: append.simps replace_first.simps)
qed

lemma normalize_debian: "normalize_branch_name ''debian'' = ''master''"
  by (simp add: normalize_branch_name_def startswith_def)

lemma normalize_other:
  "\<not> startswith raw ''debian-'' \<Longrightarrow> raw \<noteq> ''debian'' \<Longrightarrow> normalize_branch_name raw = raw"
  by (simp add: normalize_branch_name_def)

section \<open>Facts about the matcher and the registry\<close>










section \<open>Facts about the steps of the generator\<close>










lemma branch_version_with_branch:
  assumes "versioned bt \<longrightarrow>
     index_opt (split_chr (CHR ''-'') n1) 1 = index_opt (split_chr (CHR ''-'') n2) 1"
  shows "branch_version bt n2 br2 = map_sum (with_branch br2) id (branch_version bt n1 br1)"
  using assms
  by (cases "index_opt (split_chr (CHR ''-'') n2) 1")
     (simp_all add: branch_version_def)

lemma check_base_version_with_branch:
  "check_base_version bt bv b br2 = map_sum (with_branch br2) id (check_base_version bt bv b br1)"
  by (simp add: check_base_version_def split: option.splits)

lemma check_mode_with_branch:
  "map_sum (with_branch br) id (check_mode bt t m) = check_mode bt t m"
  by (simp add: check_mode_def Let_def)

lemma missing_fragment_reported:
  assumes "BRANCH_TYPES (btypestr_of v) = Some bt" "versioned bt"
    and "index_opt (split_chr (CHR ''-'') (brnorm_of v)) 1 = None"
  shows "python_version b v m = Inl (MissingBranchVersion (branch v))"
  using assms
  by (simp add: python_version_def Let_def btypestr_of_def brnorm_of_def branch_version_def)

lemma unmatched_fragment_reported:
  assumes "BRANCH_TYPES (btypestr_of v) = Some bt" "versioned bt"
    and "index_opt (split_chr (CHR ''-'') (brnorm_of v)) 1 = Some f"
    and "re_match VERSION_RE f = None"
  shows "python_version b v m = Inl (MalformedBranchVersion f (branch v))"
  using assms
  by (simp add: python_version_def Let_def btypestr_of_def brnorm_of_def branch_version_def)

section \<open>The package version mapper\<close>

text \<open>
  \<open>debian_version_from_python_version\<close> is a total function. Replacing \<^verbatim>\<open>rc\<close> by \<^verbatim>\<open>~rc\<close> can
  be undone on every string, and replacing \<^verbatim>\<open>_\<close> by \<^verbatim>\<open>~\<close> can be undone on strings without
  \<^verbatim>\<open>~\<close>: the mapper is injective on the versions that contain no \<^verbatim>\<open>~\<close>. A base version
  accepted by the registry and a revision count contain none, and neither does a commit
  identifier made of hexadecimal digits and \<^verbatim>\<open>-\<close>.
\<close>

lemma replace_all_single:
  "replace_all [a] [b] s = map (\<lambda>c. if c = a then b else c) s"
  by (induction s) (auto simp: startswith_def)

lemma replace_underscore_inj:
  assumes "CHR ''~'' \<notin> set x" "CHR ''~'' \<notin> set y"
    and "replace_all ''_'' ''~'' x = replace_all ''_'' ''~'' y"
  shows "x = y"
  using assms unfolding replace_all_single
proof (induction x arbitrary: y)
  case Nil
  then show ?case by simp
next
  case (Cons c cs)
  then obtain d ds where y: "y = d # ds" by (cases y) auto
  with Cons.prems have "c = d" by (auto split: if_splits)
  moreover from Cons.prems y have "cs = ds" by (intro Cons.IH) auto
  ultimately show ?case using y by simp
qed

lemma replace_rc_never_starts_rc:
  "\<not> startswith (replace_all ''rc'' ''~rc'' s) ''rc''"
proof (cases s)
  case Nil
  then show ?thesis by (simp add: startswith_def)
next
  case (Cons a s1)
  show ?thesis
  proof (cases s1)
    case Nil
    with Cons show ?thesis by (simp add: startswith_def)
  next
    case (Cons b s2)
    with \<open>s = a # s1\<close> show ?thesis
      by (cases s2) (auto simp: startswith_def)
  qed
qed

lemma unreplace_replace_rc: "unreplace_rc (replace_all ''rc'' ''~rc'' s) = s"
proof (induction "''rc''" "''~rc''" s rule: replace_all.induct)
  case 1
  then show ?case by simp
next
  case (2 c cs)
  show ?case
  proof (cases "startswith (c # cs) ''rc''")
    case True
    then obtain cs' where cs: "c = CHR ''r''" "cs = CHR ''c'' # cs'"
      by (cases cs) (auto simp: startswith_def)
    with 2 True show ?thesis by simp
  next
    case False
    with 2 have ih: "unreplace_rc (replace_all ''rc'' ''~rc'' cs) = cs" by simp
    from False have eq: "replace_all ''rc'' ''~rc'' (c # cs) = c # replace_all ''rc'' ''~rc'' cs"
      by simp
    have "\<not> startswith (replace_all ''rc'' ''~rc'' cs) ''rc''"
      by (rule replace_rc_never_starts_rc)
    then have "unreplace_rc (c # replace_all ''rc'' ''~rc'' cs)
        = c # unreplace_rc (replace_all ''rc'' ''~rc'' cs)"
      by (cases "replace_all ''rc'' ''~rc'' cs" rule: unreplace_rc.cases)
         (auto simp: startswith_def)
    with ih eq show ?thesis by simp
  qed
qed

lemma replace_rc_inj:
  "replace_all ''rc'' ''~rc'' x = replace_all ''rc'' ''~rc'' y \<Longrightarrow> x = y"
  by (metis unreplace_replace_rc)

lemma set_replace_underscore:
  "set (replace_all ''_'' ''~'' x) \<subseteq> insert (CHR ''~'') (set x)"
  unfolding replace_all_single by auto

lemma debian_version_from_python_version_inj:
  assumes "CHR ''~'' \<notin> set x" "CHR ''~'' \<notin> set y"
    and "debian_version_from_python_version x = debian_version_from_python_version y"
  shows "x = y"
proof -
  from assms(3) have "replace_all ''rc'' ''~rc'' (replace_all ''_'' ''~'' x)
      = replace_all ''rc'' ''~rc'' (replace_all ''_'' ''~'' y)"
    by (simp add: debian_version_from_python_version_def)
  then have "replace_all ''_'' ''~'' x = replace_all ''_'' ''~'' y" by (rule replace_rc_inj)
  with assms(1,2) show ?thesis by (rule replace_underscore_inj)
qed

section \<open>Commit identifiers\<close>

text \<open>
  Claim C4. The identifier of a commit with exactly one parent is its own short
  identifier. For a commit with exactly two parents it is the two parents' short
  identifiers joined by \<^verbatim>\<open>"-"\<close> when the name of the checked-out branch starts with
  \<^verbatim>\<open>"debian-"\<close> or is \<^verbatim>\<open>"debian"\<close>, and the merge commit's own short identifier otherwise.
  For a commit with more than two parents the derivation fails, on every branch, with the
  error of the module's only \<^verbatim>\<open>RuntimeError\<close>.
\<close>

theorem commit_id_derivation:
  "(parents c = [p] \<longrightarrow> get_commit_id c br = Inr (short_id c))
   \<and> (parents c = [p1, p2] \<longrightarrow>
        get_commit_id c br =
          Inr (if startswith br ''debian-'' \<or> br = ''debian''
               then short_id p1 @ ''-'' @ short_id p2 else short_id c))
   \<and> (2 < length (parents c) \<longrightarrow> get_commit_id c br = Inl (MoreThanTwoParents (hexsha c)))"
  by (simp add: get_commit_id_def)

theorem commit_id_derivation_witness:
  "get_commit_id (Commit ''1234567890'' [Commit ''abcdef012345'' []]) ''master''
     = Inr ''1234567''
   \<and> get_commit_id (Commit ''1234567890'' [Commit ''abcdef012345'' [], Commit ''fedcba987654'' []])
        ''debian-develop'' = Inr ''abcdef0-fedcba9''
   \<and> get_commit_id (Commit ''1234567890'' [Commit ''abcdef012345'' [], Commit ''fedcba987654'' []])
        ''debian'' = Inr ''abcdef0-fedcba9''
   \<and> get_commit_id (Commit ''1234567890'' [Commit ''abcdef012345'' [], Commit ''fedcba987654'' []])
        ''develop'' = Inr ''1234567''
   \<and> get_commit_id (Commit ''1234567890''
          [Commit ''abcdef012345'' [], Commit ''fedcba987654'' [], Commit ''0011223344'' []])
        ''debian-develop'' = Inl (MoreThanTwoParents ''1234567890'')"
  using
    commit_id_derivation [where c = "Commit ''1234567890'' [Commit ''abcdef012345'' []]"
      and p = "Commit ''abcdef012345'' []" and br = "''master''"]
    commit_id_derivation [where
      c = "Commit ''1234567890'' [Commit ''abcdef012345'' [], Commit ''fedcba987654'' []]"
      and ?p1.0 = "Commit ''abcdef012345'' []" and ?p2.0 = "Commit ''fedcba987654'' []"
      and br = "''debian-develop''"]
    commit_id_derivation [where
      c = "Commit ''1234567890'' [Commit ''abcdef012345'' [], Commit ''fedcba987654'' []]"
      and ?p1.0 = "Commit ''abcdef012345'' []" and ?p2.0 = "Commit ''fedcba987654'' []"
      and br = "''debian''"]
    commit_id_derivation [where
      c = "Commit ''1234567890'' [Commit ''abcdef012345'' [], Commit ''fedcba987654'' []]"
      and ?p1.0 = "Commit ''abcdef012345'' []" and ?p2.0 = "Commit ''fedcba987654'' []"
      and br = "''develop''"]
    commit_id_derivation [where
      c = "Commit ''1234567890''
             [Commit ''abcdef012345'' [], Commit ''fedcba987654'' [], Commit ''0011223344'' []]"
      and br = "''debian-develop''"]
  by (simp add: short_id_def startswith_def)

section \<open>Branch classification\<close>

text \<open>
  Claim C7. Classification is a total function of the raw name. The raw name
  \<^verbatim>\<open>"debian"\<close> normalizes to \<^verbatim>\<open>"master"\<close>, so its tag is \<^verbatim>\<open>"master"\<close>. A raw name with the
  prefix \<^verbatim>\<open>"debian-"\<close> loses exactly one occurrence of it: \<^verbatim>\<open>"debian-" + x\<close> normalizes
  to \<open>x\<close>, whatever \<open>x\<close> is. Every other name is left as it is. The tag of a name is the
  part before its first \<^verbatim>\<open>"-"\<close>, and the whole name when it has none.
\<close>

theorem branch_classification:
  "normalize_branch_name ''debian'' = ''master''
   \<and> get_branch_type (normalize_branch_name ''debian'') = ''master''
   \<and> normalize_branch_name (''debian-'' @ x) = x
   \<and> (\<not> startswith raw ''debian-'' \<and> raw \<noteq> ''debian'' \<longrightarrow> normalize_branch_name raw = raw)
   \<and> (CHR ''-'' \<notin> set t \<longrightarrow> get_branch_type (t @ ''-'' @ rest) = t)
   \<and> (CHR ''-'' \<notin> set n \<longrightarrow> get_branch_type n = n)"
proof -
  have a: "normalize_branch_name ''debian'' = ''master''" by (rule normalize_debian)
  have b: "get_branch_type ''master'' = ''master''" by (simp add: get_branch_type_def)
  have c: "CHR ''-'' \<notin> set t \<longrightarrow> get_branch_type (t @ ''-'' @ rest) = t"
    by (simp add: get_branch_type_takeWhile takeWhile_upto_sep)
  have d: "CHR ''-'' \<notin> set n \<longrightarrow> get_branch_type n = n"
    by (simp add: get_branch_type_def)
  show ?thesis using a b c d normalize_debian_prefix[of x] normalize_other[of raw] by simp
qed

theorem branch_classification_witness:
  "normalize_branch_name (''debian-'' @ ''debian-x'') = ''debian-x''
   \<and> normalize_branch_name ''release-0.14'' = ''release-0.14''
   \<and> get_branch_type (''release'' @ ''-'' @ ''0.14-rest'') = ''release''
   \<and> get_branch_type ''develop'' = ''develop''"
  using branch_classification [where x = "''debian-x''" and raw = "''release-0.14''"
      and t = "''release''" and rest = "''0.14-rest''" and n = "''develop''"]
  by (simp add: startswith_def)

section \<open>The generated version\<close>



section \<open>Rejected inputs\<close>

lemma master_lookup:
  "BRANCH_TYPES (get_branch_type (normalize_branch_name ''master'')) =
     Some \<lparr>builds_snapshot = False, builds_release = True, versioned = False,
           allowed_version_re = master_re\<rparr>"
  by code_simp

lemma master_re_rc: "re_match master_re ''0.14rc2'' = None"
  by code_simp

text \<open>
  Claim C6. On branch \<^verbatim>\<open>"master"\<close> the base version \<^verbatim>\<open>"0.14rc2"\<close> is rejected by the
  base-version check, whatever the mode string is (and whatever the commit identifier and
  the revision count are): the pattern of \<^verbatim>\<open>master\<close> does not match it, and the check comes
  before the mode is looked at.
\<close>

theorem master_rejects_rc_base:
  "python_version ''0.14rc2'' \<lparr>branch = ''master'', revid = i, revno = n, toplevel = t\<rparr> mode
     = Inl (BaseVersionUnsuitable ''0.14rc2'' ''master'')
   \<and> re_match master_re ''0.14rc2'' = None"
  by (simp add: python_version_def Let_def master_lookup branch_version_def
        check_base_version_def master_re_rc)

lemma release_junk_lookup:
  "BRANCH_TYPES (get_branch_type (normalize_branch_name ''release-0.14junk'')) =
     Some \<lparr>builds_snapshot = True, builds_release = True, versioned = True,
           allowed_version_re = release_re\<rparr>"
  by code_simp

lemma release_junk_fragment:
  "branch_version \<lparr>builds_snapshot = True, builds_release = True, versioned = True,
           allowed_version_re = release_re\<rparr> (normalize_branch_name ''release-0.14junk'') br
    = Inr (Some ''0.14junk'')"
  by code_simp

text \<open>
  Claim C5, at the branch \<^verbatim>\<open>"release-0.14junk"\<close>. The fragment \<^verbatim>\<open>"0.14junk"\<close> is not of the
  shape of \<^verbatim>\<open>VERSION_RE\<close>, but \<^verbatim>\<open>re.match\<close> only looks for a match at the start of the
  string and the pattern has no \<^verbatim>\<open>$\<close>: the prefix \<^verbatim>\<open>"0.14"\<close> matches. So on this branch
  \<open>python_version\<close> never fails with \<open>MalformedBranchVersion\<close>, for any base version and
  mode; with the base version \<^verbatim>\<open>"0.14rc2"\<close> it fails in the base-version check instead.
\<close>

theorem junk_fragment_not_reported_malformed:
  "re_match VERSION_RE ''0.14junk'' = Some []
   \<and> python_version b \<lparr>branch = ''release-0.14junk'', revid = i, revno = n, toplevel = t\<rparr> m
       \<noteq> Inl (MalformedBranchVersion f br)
   \<and> python_version ''0.14rc2''
        \<lparr>branch = ''release-0.14junk'', revid = i, revno = n, toplevel = t\<rparr> ''release''
       = Inl (BaseVersionUnsuitable ''0.14rc2'' ''release-0.14junk'')"
proof -
  have a: "re_match VERSION_RE ''0.14junk'' = Some []" by code_simp
  have b: "python_version b \<lparr>branch = ''release-0.14junk'', revid = i, revno = n, toplevel = t\<rparr> m
       \<noteq> Inl (MalformedBranchVersion f br)"
    by (auto simp: python_version_def Let_def release_junk_lookup release_junk_fragment
          check_base_version_def check_mode_def split: option.splits sum.splits if_splits)
  have m: "re_match release_re ''0.14rc2'' = Some [(''bverstr'', ''0.14'')]" by code_simp
  have c: "python_version ''0.14rc2''
        \<lparr>branch = ''release-0.14junk'', revid = i, revno = n, toplevel = t\<rparr> ''release''
       = Inl (BaseVersionUnsuitable ''0.14rc2'' ''release-0.14junk'')"
    by (simp add: python_version_def Let_def release_junk_lookup release_junk_fragment
          check_base_version_def m)
  from a b c show ?thesis by simp
qed

text \<open>
  Claim C9. A commit without parents gets no identifier: \<open>get_commit_id\<close> fails with the
  same error as for a commit with more than two parents. \<^verbatim>\<open>vcs_info()\<close> does not catch it,
  and it is the first call of every entry point, so with such a commit checked out no
  version is computed, whatever the version file and the environment hold.
\<close>

theorem root_commit_has_no_id:
  assumes "parents c = []"
  shows "get_commit_id c br = Inl (MoreThanTwoParents (hexsha c))
       \<and> (2 < length (parents c') \<longrightarrow> get_commit_id c' br' = Inl (MoreThanTwoParents (hexsha c')))
       \<and> (head_commit repo = c \<longrightarrow>
            vcs_info_of (Some repo) = Inl (MoreThanTwoParents (hexsha c))
            \<and> get_python_version (Some repo) fs environ = Inl (MoreThanTwoParents (hexsha c))
            \<and> get_debian_version (Some repo) fs environ = Inl (MoreThanTwoParents (hexsha c)))"
  using assms
  by (simp add: get_commit_id_def vcs_info_of_def get_python_version_def get_debian_version_def
        version_inputs_def)

theorem root_commit_has_no_id_witness:
  "get_commit_id (Commit ''1234567890'' []) ''master'' = Inl (MoreThanTwoParents ''1234567890'')
   \<and> get_python_version
        (Some \<lparr>head_name = ''master'', head_commit = Commit ''1234567890'' [],
               iter_commits = [Commit ''1234567890'' []], working_dir = ''/repo''\<rparr>)
        (\<lambda>d. Some [''0.14'']) [''GITFLOW_BUILD_MODE'' \<mapsto> ''release'']
       = Inl (MoreThanTwoParents ''1234567890'')"
  using root_commit_has_no_id [where c = "Commit ''1234567890'' []" and br = "''master''"
      and repo = "\<lparr>head_name = ''master'', head_commit = Commit ''1234567890'' [],
               iter_commits = [Commit ''1234567890'' []], working_dir = ''/repo''\<rparr>"
      and fs = "\<lambda>d. Some [''0.14'']" and environ = "[''GITFLOW_BUILD_MODE'' \<mapsto> ''release'']"]
  by simp


section \<open>The failures of the generator\<close>




section \<open>What the generator reads of the branch name\<close>

text \<open>
  Claim C10, as the code has it. Let two repository states have the same revision count
  and commit identifier, and branch names whose normalized forms have the same tag and,
  when the branch type of that tag is versioned, the same second \<^verbatim>\<open>"-"\<close>-separated field
  (or both none). Then for the same base version and mode \<open>python_version\<close> returns the
  same version for both, or fails for both with the same error, except that the three
  messages that quote the raw branch name quote each call's own.
\<close>

theorem branch_name_read_through_tag_and_fragment:
  assumes tag: "btypestr_of v1 = btypestr_of v2"
    and frag: "\<forall>bt. BRANCH_TYPES (btypestr_of v1) = Some bt \<and> versioned bt \<longrightarrow>
          index_opt (split_chr (CHR ''-'') (brnorm_of v1)) 1
            = index_opt (split_chr (CHR ''-'') (brnorm_of v2)) 1"
    and rev: "revno v1 = revno v2" "revid v1 = revid v2"
  shows "python_version b v2 m = map_sum (with_branch (branch v2)) id (python_version b v1 m)
       \<and> (\<forall>r. python_version b v1 m = Inr r \<longrightarrow> python_version b v2 m = Inr r)"
proof -
  have main: "python_version b v2 m = map_sum (with_branch (branch v2)) id (python_version b v1 m)"
  proof (cases "BRANCH_TYPES (btypestr_of v1)")
    case None
    with tag show ?thesis
      by (simp add: python_version_def Let_def btypestr_of_def)
  next
    case (Some bt)
    with frag have "versioned bt \<longrightarrow>
       index_opt (split_chr (CHR ''-'') (brnorm_of v1)) 1
         = index_opt (split_chr (CHR ''-'') (brnorm_of v2)) 1" by simp
    from branch_version_with_branch[OF this]
    have bv: "branch_version bt (brnorm_of v2) (branch v2)
        = map_sum (with_branch (branch v2)) id (branch_version bt (brnorm_of v1) (branch v1))" .
    show ?thesis
    proof (cases "branch_version bt (brnorm_of v1) (branch v1)")
      case (Inl e)
      with bv Some tag show ?thesis
        by (simp add: python_version_def Let_def btypestr_of_def brnorm_of_def)
    next
      case (Inr f)
      with bv have bv2: "branch_version bt (brnorm_of v2) (branch v2) = Inr f" by simp
      show ?thesis
      proof (cases "check_base_version bt f b (branch v1)")
        case (Inl e)
        with check_base_version_with_branch[of bt f b "branch v2" "branch v1"]
        have "check_base_version bt f b (branch v2) = Inl (with_branch (branch v2) e)" by simp
        with Inl Inr bv2 Some tag show ?thesis
          by (simp add: python_version_def Let_def btypestr_of_def brnorm_of_def)
      next
        case (Inr u)
        with check_base_version_with_branch[of bt f b "branch v2" "branch v1"]
        have cb2: "check_base_version bt f b (branch v2) = Inr u" by simp
        show ?thesis
        proof (cases "check_mode bt (btypestr_of v1) m")
          case (Inl e)
          with check_mode_with_branch[of "branch v2" bt "btypestr_of v1" m]
          have "with_branch (branch v2) e = e" by simp
          with Inl Inr cb2 \<open>branch_version bt (brnorm_of v1) (branch v1) = Inr f\<close> bv2 Some tag
          show ?thesis
            by (simp add: python_version_def Let_def btypestr_of_def brnorm_of_def)
        next
          case (Inr snap)
          with \<open>check_base_version bt f b (branch v1) = Inr u\<close> cb2
            \<open>branch_version bt (brnorm_of v1) (branch v1) = Inr f\<close> bv2 Some tag rev
          show ?thesis
            by (simp add: python_version_def Let_def btypestr_of_def brnorm_of_def)
        qed
      qed
    qed
  qed
  then show ?thesis by simp
qed

theorem branch_name_read_through_tag_and_fragment_witness:
  "python_version ''0.14rc2''
      \<lparr>branch = ''release-0.14'', revid = ''a1b2c3d'', revno = 249, toplevel = ''/repo''\<rparr>
      ''snapshot'' = Inr ''0.14rc2_249_a1b2c3d''
   \<and> python_version ''0.14''
      \<lparr>branch = ''release-0.14'', revid = ''a1b2c3d'', revno = 249, toplevel = ''/repo''\<rparr>
      ''snapshot'' = Inl (BaseVersionUnsuitable ''0.14'' ''release-0.14'')"
proof -
  let ?v1 = "\<lparr>branch = ''release-0.14-anything'', revid = ''a1b2c3d'', revno = 249,
               toplevel = ''/repo''\<rparr>"
  let ?v2 = "\<lparr>branch = ''release-0.14'', revid = ''a1b2c3d'', revno = 249, toplevel = ''/repo''\<rparr>"
  have tag: "btypestr_of ?v1 = btypestr_of ?v2"
    by code_simp
  have "index_opt (split_chr (CHR ''-'') (brnorm_of ?v1)) 1
          = index_opt (split_chr (CHR ''-'') (brnorm_of ?v2)) 1"
    by code_simp
  then have frag: "\<forall>bt. BRANCH_TYPES (btypestr_of ?v1) = Some bt \<and> versioned bt \<longrightarrow>
          index_opt (split_chr (CHR ''-'') (brnorm_of ?v1)) 1
            = index_opt (split_chr (CHR ''-'') (brnorm_of ?v2)) 1" by (intro allI impI)
  have rev: "revno ?v1 = revno ?v2" "revid ?v1 = revid ?v2" by simp_all
  have ok: "python_version ''0.14rc2'' ?v1 ''snapshot'' = Inr ''0.14rc2_249_a1b2c3d''"
    by code_simp
  have bad: "python_version ''0.14'' ?v1 ''snapshot''
      = Inl (BaseVersionUnsuitable ''0.14'' ''release-0.14-anything'')"
    by code_simp
  from branch_name_read_through_tag_and_fragment [OF tag frag rev, of "''0.14rc2''" "''snapshot''"] ok
  have a: "python_version ''0.14rc2'' ?v2 ''snapshot'' = Inr ''0.14rc2_249_a1b2c3d''"
    by simp
  from branch_name_read_through_tag_and_fragment [OF tag frag rev, of "''0.14''" "''snapshot''"] bad
  have b: "python_version ''0.14'' ?v2 ''snapshot'' = Inl (BaseVersionUnsuitable ''0.14'' ''release-0.14'')"
    by simp
  from a b show ?thesis by (rule conjI)
qed

text \<open>
  The claim C10 as stated promises the identical error. The branch names
  \<^verbatim>\<open>"release-0.14-anything"\<close> and \<^verbatim>\<open>"release-0.14"\<close> have the same tag and the same second
  field, and with the base version \<^verbatim>\<open>"0.14"\<close> both calls fail in the base-version check, but
  the two errors differ: each message quotes its own raw branch name.
\<close>

theorem error_quotes_raw_branch_name:
  "btypestr_of \<lparr>branch = ''release-0.14-anything'', revid = ''a1b2c3d'', revno = 249, toplevel = ''/repo''\<rparr>
     = btypestr_of \<lparr>branch = ''release-0.14'', revid = ''a1b2c3d'', revno = 249, toplevel = ''/repo''\<rparr>
   \<and> index_opt (split_chr (CHR ''-'') (normalize_branch_name ''release-0.14-anything'')) 1
     = index_opt (split_chr (CHR ''-'') (normalize_branch_name ''release-0.14'')) 1
   \<and> python_version ''0.14''
        \<lparr>branch = ''release-0.14-anything'', revid = ''a1b2c3d'', revno = 249, toplevel = ''/repo''\<rparr>
        ''release'' = Inl (BaseVersionUnsuitable ''0.14'' ''release-0.14-anything'')
   \<and> python_version ''0.14''
        \<lparr>branch = ''release-0.14'', revid = ''a1b2c3d'', revno = 249, toplevel = ''/repo''\<rparr>
        ''release'' = Inl (BaseVersionUnsuitable ''0.14'' ''release-0.14'')
   \<and> python_version ''0.14''
        \<lparr>branch = ''release-0.14-anything'', revid = ''a1b2c3d'', revno = 249, toplevel = ''/repo''\<rparr>
        ''release''
     \<noteq> python_version ''0.14''
        \<lparr>branch = ''release-0.14'', revid = ''a1b2c3d'', revno = 249, toplevel = ''/repo''\<rparr>
        ''release''"
proof -
  have a: "btypestr_of \<lparr>branch = ''release-0.14-anything'', revid = ''a1b2c3d'', revno = 249, toplevel = ''/repo''\<rparr>
     = btypestr_of \<lparr>branch = ''release-0.14'', revid = ''a1b2c3d'', revno = 249, toplevel = ''/repo''\<rparr>"
    by code_simp
  have b: "index_opt (split_chr (CHR ''-'') (normalize_branch_name ''release-0.14-anything'')) 1
     = index_opt (split_chr (CHR ''-'') (normalize_branch_name ''release-0.14'')) 1"
    by code_simp
  have c: "python_version ''0.14''
        \<lparr>branch = ''release-0.14-anything'', revid = ''a1b2c3d'', revno = 249, toplevel = ''/repo''\<rparr>
        ''release'' = Inl (BaseVersionUnsuitable ''0.14'' ''release-0.14-anything'')"
    by code_simp
  have d: "python_version ''0.14''
        \<lparr>branch = ''release-0.14'', revid = ''a1b2c3d'', revno = 249, toplevel = ''/repo''\<rparr>
        ''release'' = Inl (BaseVersionUnsuitable ''0.14'' ''release-0.14'')"
    by code_simp
  have e: "Inl (BaseVersionUnsuitable ''0.14'' ''release-0.14-anything'')
      \<noteq> (Inl (BaseVersionUnsuitable ''0.14'' ''release-0.14'') :: error + string)" by simp
  show ?thesis
    apply (intro conjI)
        apply (rule a)
       apply (rule b)
      apply (rule c)
     apply (rule d)
    apply (simp only: c d)
    apply (rule e)
    done
qed

end
